theory Spec2Isabelle
  imports Main
begin

section \<open>The environment of dsl.go\<close>

text \<open>
  The file \<^verbatim>\<open>dsl.go\<close> wraps three capabilities that it receives as Go interfaces
  (\<^verbatim>\<open>SQL\<close>, \<^verbatim>\<open>SQLDatabase\<close>, \<^verbatim>\<open>SQLTx\<close>) and an optional \<^verbatim>\<open>Logger\<close>. The
  model makes their effects explicit: a world holds the state of the underlying
  connection, the calls that connection has received, and the \<^verbatim>\<open>Printf\<close> calls the
  loggers have received. Every method of the source that touches the connection or
  the logger takes the world and returns the new one.

  Type variables: \<open>'s\<close> is the state of the underlying connection, \<open>'a\<close> the values
  passed as query arguments (\<^verbatim>\<open>interface{}\<close>), \<open>'r\<close> the results the connection
  hands back (\<^verbatim>\<open>sql.Result\<close>, \<^verbatim>\<open>*sql.Stmt\<close>, \<^verbatim>\<open>*sql.Rows\<close>, \<^verbatim>\<open>*sql.Row\<close>),
  \<open>'e\<close> the non-nil values of \<^verbatim>\<open>error\<close> (so \<open>'e option\<close> is an \<^verbatim>\<open>error\<close>, with
  \<open>None\<close> for \<^verbatim>\<open>nil\<close>), \<open>'l\<close> the non-nil loggers, \<open>'q\<close> the non-nil query
  factories.
\<close>

text \<open>\<^verbatim>\<open>context.Context\<close>: the background context, or one supplied by the caller.\<close>

datatype Context = Background | Ctx nat

text \<open>\<^verbatim>\<open>*sql.TxOptions\<close>: isolation level and read-only flag; \<open>None\<close> is the nil pointer.\<close>

datatype TxOptions = TxOptions int bool

text \<open>A call received by the underlying connection, with the arguments it was given.\<close>

datatype 'a call =
    ExecCall Context string "'a list"
  | PrepareCall Context string
  | QueryCall Context string "'a list"
  | QueryRowCall Context string "'a list"
  | BeginCall
  | BeginTxCall Context "TxOptions option"
  | CommitCall
  | RollbackCall

text \<open>
  An operand of \<^verbatim>\<open>Printf\<close>. \<^verbatim>\<open>Trace\<close> passes strings (\<^verbatim>\<open>op\<close>, \<^verbatim>\<open>sqlString\<close>) and
  the argument slice \<^verbatim>\<open>args\<close> as one operand.
\<close>

datatype 'a operand = Str string | Args "'a list"

record ('s, 'a, 'l) world =
  conn :: 's
  calls :: "'a call list"
  sink :: "('l \<times> string \<times> 'a operand list) list"

text \<open>\<^verbatim>\<open>logger.Printf(format, v...)\<close>: the logger receives the format and its operands.\<close>

definition Printf ::
  "'l \<Rightarrow> string \<Rightarrow> 'a operand list \<Rightarrow> ('s, 'a, 'l) world \<Rightarrow> ('s, 'a, 'l) world" where
  "Printf l format v w = w\<lparr>sink := sink w @ [(l, format, v)]\<rparr>"

text \<open>
  The text a \<^verbatim>\<open>fmt\<close>-based logger makes of a \<^verbatim>\<open>Printf\<close> call, for the two verbs the
  source uses: \<^verbatim>\<open>%s\<close> with a string operand prints the string, \<^verbatim>\<open>%+v\<close> with the
  argument slice prints its rendering \<open>pv\<close> (Go's \<^verbatim>\<open>fmt\<close> is not part of this
  repository, so the rendering of a slice is a parameter). Any other verb, a verb
  with no operand left, an operand of the other kind and operands left over give
  \<open>None\<close>: the source never does that, and what \<^verbatim>\<open>fmt\<close> prints then is not modelled.
\<close>

fun Sprintf :: "('a list \<Rightarrow> string) \<Rightarrow> string \<Rightarrow> 'a operand list \<Rightarrow> string option" where
  "Sprintf pv [] v = (if v = [] then Some [] else None)"
| "Sprintf pv (c # format) v =
     (if c \<noteq> CHR ''%'' then map_option ((#) c) (Sprintf pv format v)
      else if take 1 format = ''s'' then
        (case v of
           Str x # v' \<Rightarrow> map_option ((@) x) (Sprintf pv (drop 1 format) v')
         | _ \<Rightarrow> None)
      else if take 2 format = ''+v'' then
        (case v of
           Args a # v' \<Rightarrow> map_option ((@) (pv a)) (Sprintf pv (drop 2 format) v')
         | _ \<Rightarrow> None)
      else None)"

section \<open>The capabilities\<close>

text \<open>
  The interface \<^verbatim>\<open>SQL\<close>. Each method is a function of the connection state; a method
  with two results returns both, as the Go method does.
\<close>

record ('s, 'a, 'r, 'e) SQL =
  SQL_ExecContext :: "Context \<Rightarrow> string \<Rightarrow> 'a list \<Rightarrow> 's \<Rightarrow> ('r \<times> 'e option) \<times> 's"
  SQL_PrepareContext :: "Context \<Rightarrow> string \<Rightarrow> 's \<Rightarrow> ('r \<times> 'e option) \<times> 's"
  SQL_QueryContext :: "Context \<Rightarrow> string \<Rightarrow> 'a list \<Rightarrow> 's \<Rightarrow> ('r \<times> 'e option) \<times> 's"
  SQL_QueryRowContext :: "Context \<Rightarrow> string \<Rightarrow> 'a list \<Rightarrow> 's \<Rightarrow> 'r \<times> 's"

text \<open>The interface \<^verbatim>\<open>SQLTx\<close>: \<^verbatim>\<open>SQL\<close> with \<^verbatim>\<open>Commit\<close> and \<^verbatim>\<open>Rollback\<close>.\<close>

record ('s, 'a, 'r, 'e) SQLTx = "('s, 'a, 'r, 'e) SQL" +
  SQLTx_Commit :: "'s \<Rightarrow> 'e option \<times> 's"
  SQLTx_Rollback :: "'s \<Rightarrow> 'e option \<times> 's"

text \<open>
  The interface \<^verbatim>\<open>SQLDatabase\<close>: \<^verbatim>\<open>SQL\<close> with \<^verbatim>\<open>Begin\<close> and \<^verbatim>\<open>BeginTx\<close>, which
  return the transaction (\<^verbatim>\<open>*sql.Tx\<close>, used by the source only as an \<^verbatim>\<open>SQLTx\<close>) and
  an error.
\<close>

record ('s, 'a, 'r, 'e) SQLDatabase = "('s, 'a, 'r, 'e) SQL" +
  SQLDatabase_Begin :: "'s \<Rightarrow> (('s, 'a, 'r, 'e) SQLTx \<times> 'e option) \<times> 's"
  SQLDatabase_BeginTx ::
    "Context \<Rightarrow> TxOptions option \<Rightarrow> 's \<Rightarrow> (('s, 'a, 'r, 'e) SQLTx \<times> 'e option) \<times> 's"

text \<open>
  A call of a capability's method from the source: the connection answers, its new
  state is stored, and the call is appended to those it has received.
\<close>

definition invoke ::
  "'a call \<Rightarrow> ('s \<Rightarrow> 'x \<times> 's) \<Rightarrow> ('s, 'a, 'l) world \<Rightarrow> 'x \<times> ('s, 'a, 'l) world" where
  "invoke c m w = (case m (conn w) of (x, s) \<Rightarrow> (x, w\<lparr>conn := s, calls := calls w @ [c]\<rparr>))"

section \<open>DSL\<close>

text \<open>
  The struct \<^verbatim>\<open>DSL\<close>. \<^verbatim>\<open>logger\<close> and \<^verbatim>\<open>qf\<close> are interface values that may be nil;
  \<^verbatim>\<open>qfOnce\<close> is a \<^verbatim>\<open>sync.Once\<close>, of which the model keeps whether it has run.
\<close>

record ('s, 'a, 'r, 'e, 'l, 'q) DSL =
  logger :: "'l option"
  dialect :: string
  sql :: "('s, 'a, 'r, 'e) SQL"
  qf :: "'q option"
  qfOnce :: bool

definition newDSL :: "string \<Rightarrow> ('s, 'a, 'r, 'e) SQL \<Rightarrow> ('s, 'a, 'r, 'e, 'l, 'q) DSL" where
  "newDSL dialect' sql' =
     \<lparr>logger = None, dialect = dialect', sql = sql', qf = None, qfOnce = False\<rparr>"

definition Dialect :: "('s, 'a, 'r, 'e, 'l, 'q) DSL \<Rightarrow> string" where
  "Dialect d = dialect d"

text \<open>\<^verbatim>\<open>Logger\<close> assigns the field; the model returns the updated struct.\<close>

definition Logger ::
  "('s, 'a, 'r, 'e, 'l, 'q) DSL \<Rightarrow> 'l option \<Rightarrow> ('s, 'a, 'r, 'e, 'l, 'q) DSL" where
  "Logger d logger' = d\<lparr>logger := logger'\<rparr>"

definition Trace ::
  "('s, 'a, 'r, 'e, 'l, 'q) DSL \<Rightarrow> string \<Rightarrow> string \<Rightarrow> 'a list \<Rightarrow>
   ('s, 'a, 'l) world \<Rightarrow> ('s, 'a, 'l) world" where
  "Trace d op sqlString args w =
     (case logger d of
        Some l \<Rightarrow>
          if sqlString \<noteq> [] then
            if length args \<noteq> 0 then
              Printf l ''[goqu] %s [query:=`%s` args:=%+v]'' [Str op, Str sqlString, Args args] w
            else
              Printf l ''[goqu] %s [query:=`%s`]'' [Str op, Str sqlString] w
          else
            Printf l ''[goqu] %s'' [Str op] w
      | None \<Rightarrow> w)"

definition ExecContext ::
  "('s, 'a, 'r, 'e, 'l, 'q) DSL \<Rightarrow> Context \<Rightarrow> string \<Rightarrow> 'a list \<Rightarrow>
   ('s, 'a, 'l) world \<Rightarrow> ('r \<times> 'e option) \<times> ('s, 'a, 'l) world" where
  "ExecContext d ctx query args w =
     invoke (ExecCall ctx query args) (SQL_ExecContext (sql d) ctx query args)
       (Trace d ''EXEC'' query args w)"

definition Exec ::
  "('s, 'a, 'r, 'e, 'l, 'q) DSL \<Rightarrow> string \<Rightarrow> 'a list \<Rightarrow>
   ('s, 'a, 'l) world \<Rightarrow> ('r \<times> 'e option) \<times> ('s, 'a, 'l) world" where
  "Exec d query args w = ExecContext d Background query args w"

definition PrepareContext ::
  "('s, 'a, 'r, 'e, 'l, 'q) DSL \<Rightarrow> Context \<Rightarrow> string \<Rightarrow>
   ('s, 'a, 'l) world \<Rightarrow> ('r \<times> 'e option) \<times> ('s, 'a, 'l) world" where
  "PrepareContext d ctx query w =
     invoke (PrepareCall ctx query) (SQL_PrepareContext (sql d) ctx query)
       (Trace d ''PREPARE'' query [] w)"

definition Prepare ::
  "('s, 'a, 'r, 'e, 'l, 'q) DSL \<Rightarrow> string \<Rightarrow>
   ('s, 'a, 'l) world \<Rightarrow> ('r \<times> 'e option) \<times> ('s, 'a, 'l) world" where
  "Prepare d query w = PrepareContext d Background query w"

definition QueryContext ::
  "('s, 'a, 'r, 'e, 'l, 'q) DSL \<Rightarrow> Context \<Rightarrow> string \<Rightarrow> 'a list \<Rightarrow>
   ('s, 'a, 'l) world \<Rightarrow> ('r \<times> 'e option) \<times> ('s, 'a, 'l) world" where
  "QueryContext d ctx query args w =
     invoke (QueryCall ctx query args) (SQL_QueryContext (sql d) ctx query args)
       (Trace d ''QUERY'' query args w)"

definition Query ::
  "('s, 'a, 'r, 'e, 'l, 'q) DSL \<Rightarrow> string \<Rightarrow> 'a list \<Rightarrow>
   ('s, 'a, 'l) world \<Rightarrow> ('r \<times> 'e option) \<times> ('s, 'a, 'l) world" where
  "Query d query args w = QueryContext d Background query args w"

definition QueryRowContext ::
  "('s, 'a, 'r, 'e, 'l, 'q) DSL \<Rightarrow> Context \<Rightarrow> string \<Rightarrow> 'a list \<Rightarrow>
   ('s, 'a, 'l) world \<Rightarrow> 'r \<times> ('s, 'a, 'l) world" where
  "QueryRowContext d ctx query args w =
     invoke (QueryRowCall ctx query args) (SQL_QueryRowContext (sql d) ctx query args)
       (Trace d ''QUERY ROW'' query args w)"

definition QueryRow ::
  "('s, 'a, 'r, 'e, 'l, 'q) DSL \<Rightarrow> string \<Rightarrow> 'a list \<Rightarrow>
   ('s, 'a, 'l) world \<Rightarrow> 'r \<times> ('s, 'a, 'l) world" where
  "QueryRow d query args w = QueryRowContext d Background query args w"

subsection \<open>The query factory\<close>

text \<open>
  The package \<^verbatim>\<open>exec\<close> is not among the sources: its constructor and the methods
  the \<^verbatim>\<open>Scan\<close> family calls on its values are parameters. A factory is made from
  the handle; \<^verbatim>\<open>FromSQL\<close> makes an executor \<open>'x\<close> of it; the executor's scans act
  on the world and write into the target \<open>'i\<close>, which the model leaves to them.
\<close>

record ('s, 'a, 'r, 'e, 'l, 'q, 'x, 'i) exec =
  NewQueryFactory :: "('s, 'a, 'r, 'e, 'l, 'q) DSL \<Rightarrow> 'q option"
  FromSQL :: "'q \<Rightarrow> string \<Rightarrow> 'a list \<Rightarrow> 'x"
  exec_ScanStructsContext ::
    "'x \<Rightarrow> Context \<Rightarrow> 'i \<Rightarrow> ('s, 'a, 'l) world \<Rightarrow> 'e option \<times> ('s, 'a, 'l) world"
  exec_ScanStructContext ::
    "'x \<Rightarrow> Context \<Rightarrow> 'i \<Rightarrow> ('s, 'a, 'l) world \<Rightarrow> (bool \<times> 'e option) \<times> ('s, 'a, 'l) world"
  exec_ScanValsContext ::
    "'x \<Rightarrow> Context \<Rightarrow> 'i \<Rightarrow> ('s, 'a, 'l) world \<Rightarrow> 'e option \<times> ('s, 'a, 'l) world"
  exec_ScanValContext ::
    "'x \<Rightarrow> Context \<Rightarrow> 'i \<Rightarrow> ('s, 'a, 'l) world \<Rightarrow> (bool \<times> 'e option) \<times> ('s, 'a, 'l) world"

text \<open>
  \<^verbatim>\<open>queryFactory\<close>, one caller at a time: \<^verbatim>\<open>qfOnce.Do\<close> runs the constructor when
  it has not run before, and the field is returned. The handle comes back updated.
\<close>

definition queryFactory ::
  "('s, 'a, 'r, 'e, 'l, 'q, 'x, 'i) exec \<Rightarrow> ('s, 'a, 'r, 'e, 'l, 'q) DSL \<Rightarrow>
   'q option \<times> ('s, 'a, 'r, 'e, 'l, 'q) DSL" where
  "queryFactory ex d =
     (let d' = (if qfOnce d then d else d\<lparr>qf := NewQueryFactory ex d, qfOnce := True\<rparr>)
      in (qf d', d'))"

text \<open>A method called on a nil interface value panics.\<close>

datatype runtime_error = NilDereference

definition ScanStructsContext ::
  "('s, 'a, 'r, 'e, 'l, 'q, 'x, 'i) exec \<Rightarrow> ('s, 'a, 'r, 'e, 'l, 'q) DSL \<Rightarrow> Context \<Rightarrow> 'i \<Rightarrow>
   string \<Rightarrow> 'a list \<Rightarrow> ('s, 'a, 'l) world \<Rightarrow>
   (runtime_error + 'e option) \<times> ('s, 'a, 'r, 'e, 'l, 'q) DSL \<times> ('s, 'a, 'l) world" where
  "ScanStructsContext ex d ctx i query args w =
     (case queryFactory ex d of
        (None, d') \<Rightarrow> (Inl NilDereference, d', w)
      | (Some q, d') \<Rightarrow>
          (case exec_ScanStructsContext ex (FromSQL ex q query args) ctx i w of
             (err, w') \<Rightarrow> (Inr err, d', w')))"

definition ScanStructs ::
  "('s, 'a, 'r, 'e, 'l, 'q, 'x, 'i) exec \<Rightarrow> ('s, 'a, 'r, 'e, 'l, 'q) DSL \<Rightarrow> 'i \<Rightarrow>
   string \<Rightarrow> 'a list \<Rightarrow> ('s, 'a, 'l) world \<Rightarrow>
   (runtime_error + 'e option) \<times> ('s, 'a, 'r, 'e, 'l, 'q) DSL \<times> ('s, 'a, 'l) world" where
  "ScanStructs ex d i query args w = ScanStructsContext ex d Background i query args w"

definition ScanStructContext ::
  "('s, 'a, 'r, 'e, 'l, 'q, 'x, 'i) exec \<Rightarrow> ('s, 'a, 'r, 'e, 'l, 'q) DSL \<Rightarrow> Context \<Rightarrow> 'i \<Rightarrow>
   string \<Rightarrow> 'a list \<Rightarrow> ('s, 'a, 'l) world \<Rightarrow>
   (runtime_error + bool \<times> 'e option) \<times> ('s, 'a, 'r, 'e, 'l, 'q) DSL \<times> ('s, 'a, 'l) world" where
  "ScanStructContext ex d ctx i query args w =
     (case queryFactory ex d of
        (None, d') \<Rightarrow> (Inl NilDereference, d', w)
      | (Some q, d') \<Rightarrow>
          (case exec_ScanStructContext ex (FromSQL ex q query args) ctx i w of
             (found, w') \<Rightarrow> (Inr found, d', w')))"

definition ScanStruct ::
  "('s, 'a, 'r, 'e, 'l, 'q, 'x, 'i) exec \<Rightarrow> ('s, 'a, 'r, 'e, 'l, 'q) DSL \<Rightarrow> 'i \<Rightarrow>
   string \<Rightarrow> 'a list \<Rightarrow> ('s, 'a, 'l) world \<Rightarrow>
   (runtime_error + bool \<times> 'e option) \<times> ('s, 'a, 'r, 'e, 'l, 'q) DSL \<times> ('s, 'a, 'l) world" where
  "ScanStruct ex d i query args w = ScanStructContext ex d Background i query args w"

definition ScanValsContext ::
  "('s, 'a, 'r, 'e, 'l, 'q, 'x, 'i) exec \<Rightarrow> ('s, 'a, 'r, 'e, 'l, 'q) DSL \<Rightarrow> Context \<Rightarrow> 'i \<Rightarrow>
   string \<Rightarrow> 'a list \<Rightarrow> ('s, 'a, 'l) world \<Rightarrow>
   (runtime_error + 'e option) \<times> ('s, 'a, 'r, 'e, 'l, 'q) DSL \<times> ('s, 'a, 'l) world" where
  "ScanValsContext ex d ctx i query args w =
     (case queryFactory ex d of
        (None, d') \<Rightarrow> (Inl NilDereference, d', w)
      | (Some q, d') \<Rightarrow>
          (case exec_ScanValsContext ex (FromSQL ex q query args) ctx i w of
             (err, w') \<Rightarrow> (Inr err, d', w')))"

definition ScanVals ::
  "('s, 'a, 'r, 'e, 'l, 'q, 'x, 'i) exec \<Rightarrow> ('s, 'a, 'r, 'e, 'l, 'q) DSL \<Rightarrow> 'i \<Rightarrow>
   string \<Rightarrow> 'a list \<Rightarrow> ('s, 'a, 'l) world \<Rightarrow>
   (runtime_error + 'e option) \<times> ('s, 'a, 'r, 'e, 'l, 'q) DSL \<times> ('s, 'a, 'l) world" where
  "ScanVals ex d i query args w = ScanValsContext ex d Background i query args w"

definition ScanValContext ::
  "('s, 'a, 'r, 'e, 'l, 'q, 'x, 'i) exec \<Rightarrow> ('s, 'a, 'r, 'e, 'l, 'q) DSL \<Rightarrow> Context \<Rightarrow> 'i \<Rightarrow>
   string \<Rightarrow> 'a list \<Rightarrow> ('s, 'a, 'l) world \<Rightarrow>
   (runtime_error + bool \<times> 'e option) \<times> ('s, 'a, 'r, 'e, 'l, 'q) DSL \<times> ('s, 'a, 'l) world" where
  "ScanValContext ex d ctx i query args w =
     (case queryFactory ex d of
        (None, d') \<Rightarrow> (Inl NilDereference, d', w)
      | (Some q, d') \<Rightarrow>
          (case exec_ScanValContext ex (FromSQL ex q query args) ctx i w of
             (found, w') \<Rightarrow> (Inr found, d', w')))"

definition ScanVal ::
  "('s, 'a, 'r, 'e, 'l, 'q, 'x, 'i) exec \<Rightarrow> ('s, 'a, 'r, 'e, 'l, 'q) DSL \<Rightarrow> 'i \<Rightarrow>
   string \<Rightarrow> 'a list \<Rightarrow> ('s, 'a, 'l) world \<Rightarrow>
   (runtime_error + bool \<times> 'e option) \<times> ('s, 'a, 'r, 'e, 'l, 'q) DSL \<times> ('s, 'a, 'l) world" where
  "ScanVal ex d i query args w = ScanValContext ex d Background i query args w"

section \<open>TxDatabase\<close>

text \<open>
  The struct \<^verbatim>\<open>TxDatabase\<close>: the embedded \<^verbatim>\<open>*DSL\<close> and the field \<^verbatim>\<open>Tx\<close>. It has
  no other field: the handle keeps no record of having been committed or rolled back.
\<close>

record ('s, 'a, 'r, 'e, 'l, 'q) TxDatabase =
  tx_DSL :: "('s, 'a, 'r, 'e, 'l, 'q) DSL"
  Tx :: "('s, 'a, 'r, 'e) SQLTx"

definition NewTx ::
  "string \<Rightarrow> ('s, 'a, 'r, 'e) SQLTx \<Rightarrow> ('s, 'a, 'r, 'e, 'l, 'q) TxDatabase" where
  "NewTx dialect' tx = \<lparr>tx_DSL = newDSL dialect' (SQL.truncate tx), Tx = tx\<rparr>"

definition Commit ::
  "('s, 'a, 'r, 'e, 'l, 'q) TxDatabase \<Rightarrow> ('s, 'a, 'l) world \<Rightarrow> 'e option \<times> ('s, 'a, 'l) world" where
  "Commit td w = invoke CommitCall (SQLTx_Commit (Tx td)) (Trace (tx_DSL td) ''COMMIT'' [] [] w)"

definition Rollback ::
  "('s, 'a, 'r, 'e, 'l, 'q) TxDatabase \<Rightarrow> ('s, 'a, 'l) world \<Rightarrow> 'e option \<times> ('s, 'a, 'l) world" where
  "Rollback td w =
     invoke RollbackCall (SQLTx_Rollback (Tx td)) (Trace (tx_DSL td) ''ROLLBACK'' [] [] w)"

text \<open>
  How a call of a \<^verbatim>\<open>func() error\<close> ends: it returns an error (\<open>None\<close> for nil), it
  panics with a value of type \<^verbatim>\<open>interface{}\<close> (\<open>None\<close> for \<^verbatim>\<open>panic(nil)\<close>, which a
  Go runtime before 1.21, or a later one with \<^verbatim>\<open>GODEBUG=panicnil=1\<close>, lets through
  as it is; \<open>'p\<close> are the non-nil values), or it ends its goroutine with
  \<^verbatim>\<open>runtime.Goexit\<close>. The work function is a function of the world; it is taken to
  leave the fields of the handle as they are.
\<close>

datatype ('e, 'p) outcome = Return "'e option" | Panic "'p option" | Goexit

text \<open>
  \<^verbatim>\<open>recover()\<close> in a deferred function: the value of the panic under way, and nil
  when there is none.
\<close>

definition recover :: "('e, 'p) outcome \<Rightarrow> 'p option" where
  "recover r = (case r of Panic p \<Rightarrow> p | _ \<Rightarrow> None)"

text \<open>
  The deferred function of \<^verbatim>\<open>Wrap\<close>, run when \<^verbatim>\<open>fn()\<close> has ended with \<open>r\<close>. The
  named result \<^verbatim>\<open>err\<close> holds what \<^verbatim>\<open>fn\<close> returned, and nil when it did not
  return. A recovered non-nil value is raised again; otherwise the function leaves
  through \<open>leave\<close>: a goroutine that is exiting goes on exiting, and in every other
  case \<^verbatim>\<open>Wrap\<close> returns \<^verbatim>\<open>err\<close>.
\<close>

definition leave :: "('e, 'p) outcome \<Rightarrow> 'e option \<Rightarrow> ('e, 'p) outcome" where
  "leave r err = (case r of Goexit \<Rightarrow> Goexit | _ \<Rightarrow> Return err)"

definition Wrap_deferred ::
  "('s, 'a, 'r, 'e, 'l, 'q) TxDatabase \<Rightarrow> ('e, 'p) outcome \<Rightarrow> ('s, 'a, 'l) world \<Rightarrow>
   ('e, 'p) outcome \<times> ('s, 'a, 'l) world" where
  "Wrap_deferred td r w =
     (let err = (case r of Return e \<Rightarrow> e | _ \<Rightarrow> None) in
      case recover r of
        Some p \<Rightarrow> (case Rollback td w of (_, w') \<Rightarrow> (Panic (Some p), w'))
      | None \<Rightarrow>
          (case err of
             Some e \<Rightarrow>
               (case Rollback td w of
                  (rollbackErr, w') \<Rightarrow>
                    (leave r (case rollbackErr of Some re \<Rightarrow> Some re | None \<Rightarrow> err), w'))
           | None \<Rightarrow>
               (case Commit td w of
                  (commitErr, w') \<Rightarrow>
                    (leave r (case commitErr of Some ce \<Rightarrow> Some ce | None \<Rightarrow> err), w'))))"

definition Wrap ::
  "('s, 'a, 'r, 'e, 'l, 'q) TxDatabase \<Rightarrow>
   (('s, 'a, 'l) world \<Rightarrow> ('e, 'p) outcome \<times> ('s, 'a, 'l) world) \<Rightarrow>
   ('s, 'a, 'l) world \<Rightarrow> ('e, 'p) outcome \<times> ('s, 'a, 'l) world" where
  "Wrap td fn w = (case fn w of (r, w') \<Rightarrow> Wrap_deferred td r w')"

section \<open>Database\<close>

record ('s, 'a, 'r, 'e, 'l, 'q) Database =
  db_DSL :: "('s, 'a, 'r, 'e, 'l, 'q) DSL"
  Db :: "('s, 'a, 'r, 'e) SQLDatabase"

definition newDatabase ::
  "string \<Rightarrow> ('s, 'a, 'r, 'e) SQLDatabase \<Rightarrow> ('s, 'a, 'r, 'e, 'l, 'q) Database" where
  "newDatabase dialect' db = \<lparr>db_DSL = newDSL dialect' (SQL.truncate db), Db = db\<rparr>"

text \<open>
  \<^verbatim>\<open>Begin\<close> and \<^verbatim>\<open>BeginTx\<close> return \<^verbatim>\<open>(nil, err)\<close> or \<^verbatim>\<open>(tx, nil)\<close>: \<open>Inl err\<close> and
  \<open>Inr tx\<close>.
\<close>

definition Begin ::
  "('s, 'a, 'r, 'e, 'l, 'q) Database \<Rightarrow> ('s, 'a, 'l) world \<Rightarrow>
   ('e + ('s, 'a, 'r, 'e, 'l, 'q) TxDatabase) \<times> ('s, 'a, 'l) world" where
  "Begin d w =
     (case invoke BeginCall (SQLDatabase_Begin (Db d)) w of
        ((sqlTx, err), w') \<Rightarrow>
          (case err of
             Some e \<Rightarrow> (Inl e, w')
           | None \<Rightarrow>
               (let tx = NewTx (dialect (db_DSL d)) sqlTx;
                    tx = tx\<lparr>tx_DSL := Logger (tx_DSL tx) (logger (db_DSL d))\<rparr>
                in (Inr tx, w'))))"

definition BeginTx ::
  "('s, 'a, 'r, 'e, 'l, 'q) Database \<Rightarrow> Context \<Rightarrow> TxOptions option \<Rightarrow> ('s, 'a, 'l) world \<Rightarrow>
   ('e + ('s, 'a, 'r, 'e, 'l, 'q) TxDatabase) \<times> ('s, 'a, 'l) world" where
  "BeginTx d ctx opts w =
     (case invoke (BeginTxCall ctx opts) (SQLDatabase_BeginTx (Db d) ctx opts) w of
        ((sqlTx, err), w') \<Rightarrow>
          (case err of
             Some e \<Rightarrow> (Inl e, w')
           | None \<Rightarrow>
               (let tx = NewTx (dialect (db_DSL d)) sqlTx;
                    tx = tx\<lparr>tx_DSL := Logger (tx_DSL tx) (logger (db_DSL d))\<rparr>
                in (Inr tx, w'))))"

definition WithTx ::
  "('s, 'a, 'r, 'e, 'l, 'q) Database \<Rightarrow>
   (('s, 'a, 'r, 'e, 'l, 'q) TxDatabase \<Rightarrow> ('s, 'a, 'l) world \<Rightarrow>
    ('e, 'p) outcome \<times> ('s, 'a, 'l) world) \<Rightarrow>
   ('s, 'a, 'l) world \<Rightarrow> ('e, 'p) outcome \<times> ('s, 'a, 'l) world" where
  "WithTx d fn w =
     (case Begin d w of
        (Inl err, w') \<Rightarrow> (Return (Some err), w')
      | (Inr tx, w') \<Rightarrow> Wrap tx (\<lambda>w. fn tx w) w')"

section \<open>Sequences of completions on one handle\<close>






section \<open>The text of the trace\<close>

text \<open>What each logger has been asked to print, as text.\<close>

definition messages ::
  "('a list \<Rightarrow> string) \<Rightarrow> ('s, 'a, 'l) world \<Rightarrow> ('l \<times> string option) list" where
  "messages pv w = map (\<lambda>(l, format, v). (l, Sprintf pv format v)) (sink w)"

text \<open>
  The rendering \<^verbatim>\<open>%+v\<close> gives a slice of unsigned integers: the elements in
  decimal, separated by spaces, in brackets.
\<close>

fun show_nat :: "nat \<Rightarrow> string" where
  "show_nat n =
     (if n < 10 then [''0123456789'' ! n]
      else show_nat (n div 10) @ [''0123456789'' ! (n mod 10)])"

fun join :: "string list \<Rightarrow> string" where
  "join [] = []"
| "join [x] = x"
| "join (x # y # xs) = x @ '' '' @ join (y # xs)"

definition show_nats :: "nat list \<Rightarrow> string" where
  "show_nats a = ''['' @ join (map show_nat a) @ '']''"

section \<open>Connections for the examples\<close>

text \<open>
  Implementations of the interfaces with fixed answers: the state counts the calls
  answered, and the errors of \<^verbatim>\<open>Commit\<close>, \<^verbatim>\<open>Rollback\<close> and \<^verbatim>\<open>Begin\<close> are given.
\<close>

definition mock_tx :: "string option \<Rightarrow> string option \<Rightarrow> (nat, nat, string, string) SQLTx" where
  "mock_tx commitErr rollbackErr =
     \<lparr>SQL_ExecContext = (\<lambda>ctx query args s. ((''result'', None), Suc s)),
      SQL_PrepareContext = (\<lambda>ctx query s. ((''stmt'', None), Suc s)),
      SQL_QueryContext = (\<lambda>ctx query args s. ((''rows'', None), Suc s)),
      SQL_QueryRowContext = (\<lambda>ctx query args s. (''row'', Suc s)),
      SQLTx_Commit = (\<lambda>s. (commitErr, Suc s)),
      SQLTx_Rollback = (\<lambda>s. (rollbackErr, Suc s))\<rparr>"

definition mock_td ::
  "string option \<Rightarrow> string option \<Rightarrow> (nat, nat, string, string, nat, nat) TxDatabase" where
  "mock_td commitErr rollbackErr = NewTx ''mock'' (mock_tx commitErr rollbackErr)"

definition mock_db :: "string option \<Rightarrow> (nat, nat, string, string) SQLDatabase" where
  "mock_db beginErr =
     \<lparr>SQL_ExecContext = (\<lambda>ctx query args s. ((''result'', None), Suc s)),
      SQL_PrepareContext = (\<lambda>ctx query s. ((''stmt'', None), Suc s)),
      SQL_QueryContext = (\<lambda>ctx query args s. ((''rows'', None), Suc s)),
      SQL_QueryRowContext = (\<lambda>ctx query args s. (''row'', Suc s)),
      SQLDatabase_Begin = (\<lambda>s. ((mock_tx None None, beginErr), Suc s)),
      SQLDatabase_BeginTx = (\<lambda>ctx opts s. ((mock_tx None None, beginErr), Suc s))\<rparr>"

text \<open>A database handle and a plain handle whose logger is set (to logger 7).\<close>

definition mock_database ::
  "string option \<Rightarrow> (nat, nat, string, string, nat, nat) Database" where
  "mock_database beginErr =
     \<lparr>db_DSL = Logger (newDSL ''mock'' (SQL.truncate (mock_db beginErr))) (Some 7),
      Db = mock_db beginErr\<rparr>"

definition mock_dsl :: "(nat, nat, string, string, nat, nat) DSL" where
  "mock_dsl = Logger (newDSL ''mock'' (SQL.truncate (mock_tx None None))) (Some 7)"

definition logged_td :: "(nat, nat, string, string, nat, nat) TxDatabase" where
  "logged_td = (mock_td None None)\<lparr>tx_DSL := Logger (tx_DSL (mock_td None None)) (Some 7)\<rparr>"



definition w0 :: "(nat, nat, nat) world" where
  "w0 = \<lparr>conn = 0, calls = [], sink = []\<rparr>"

text \<open>
  Work functions: one returns the error it is given, one panics with the value it is
  given, one runs a statement on the transaction handle and returns its error.
\<close>

definition returning ::
  "string option \<Rightarrow> (nat, nat, nat) world \<Rightarrow> (string, string) outcome \<times> (nat, nat, nat) world" where
  "returning err w = (Return err, w)"

definition panicking ::
  "string option \<Rightarrow> (nat, nat, nat) world \<Rightarrow> (string, string) outcome \<times> (nat, nat, nat) world" where
  "panicking p w = (Panic p, w)"

definition inserting ::
  "(nat, nat, string, string, nat, nat) TxDatabase \<Rightarrow> (nat, nat, nat) world \<Rightarrow>
   (string, string) outcome \<times> (nat, nat, nat) world" where
  "inserting tx w =
     (case ExecContext (tx_DSL tx) Background ''INSERT'' [] w of
        ((res, err), w') \<Rightarrow> (Return err, w'))"

section \<open>What a call leaves in the world\<close>

lemma conn_Trace: "conn (Trace d op s a w) = conn w"
  by (simp add: Trace_def Printf_def split: option.splits)

lemma calls_Trace: "calls (Trace d op s a w) = calls w"
  by (simp add: Trace_def Printf_def split: option.splits)

lemma fst_invoke: "fst (invoke c m w) = fst (m (conn w))"
  by (simp add: invoke_def split: prod.splits)

lemma calls_invoke: "calls (snd (invoke c m w)) = calls w @ [c]"
  by (simp add: invoke_def split: prod.splits)


lemma sink_invoke: "sink (snd (invoke c m w)) = sink w"
  by (simp add: invoke_def split: prod.splits)

lemma messages_invoke: "messages pv (snd (invoke c m w)) = messages pv w"
  by (simp add: messages_def sink_invoke)

lemma fst_Rollback: "fst (Rollback td w) = fst (SQLTx_Rollback (Tx td) (conn w))"
  by (simp add: Rollback_def fst_invoke conn_Trace)

lemma calls_Rollback: "calls (snd (Rollback td w)) = calls w @ [RollbackCall]"
  by (simp add: Rollback_def calls_invoke calls_Trace)


lemma fst_Commit: "fst (Commit td w) = fst (SQLTx_Commit (Tx td) (conn w))"
  by (simp add: Commit_def fst_invoke conn_Trace)

lemma calls_Commit: "calls (snd (Commit td w)) = calls w @ [CommitCall]"
  by (simp add: Commit_def calls_invoke calls_Trace)


section \<open>The format of the trace\<close>

text \<open>The three formats of \<^verbatim>\<open>Trace\<close>, printed with any operation and any SQL text.\<close>

lemma Sprintf_op: "Sprintf pv ''[goqu] %s'' [Str op] = Some (''[goqu] '' @ op)"
  by simp

lemma Sprintf_query:
  "Sprintf pv ''[goqu] %s [query:=`%s`]'' [Str op, Str s] =
     Some (''[goqu] '' @ op @ '' [query:=`'' @ s @ ''`]'')"
  by simp

lemma Sprintf_query_args:
  "Sprintf pv ''[goqu] %s [query:=`%s` args:=%+v]'' [Str op, Str s, Args a] =
     Some (''[goqu] '' @ op @ '' [query:=`'' @ s @ ''` args:='' @ pv a @ '']'')"
  by simp

lemma Trace_no_logger: "logger d = None \<Longrightarrow> Trace d op s a w = w"
  by (simp add: Trace_def)

lemma messages_Trace:
  "logger d = Some l \<Longrightarrow>
   messages pv (Trace d op s a w) =
     messages pv w @
     [(l, Some (if s = [] then ''[goqu] '' @ op
                else if a = [] then ''[goqu] '' @ op @ '' [query:=`'' @ s @ ''`]''
                else ''[goqu] '' @ op @ '' [query:=`'' @ s @ ''` args:='' @ pv a @ '']''))]"
  by (simp add: Trace_def Printf_def messages_def
      Sprintf_op Sprintf_query Sprintf_query_args del: Sprintf.simps)

text \<open>
  C4. With a logger set, \<^verbatim>\<open>Trace(op, s, a...)\<close> makes the logger print exactly one
  message: the operation alone when \<open>s\<close> is empty, the operation and the query when
  \<open>s\<close> is not empty and \<open>a\<close> is, and the operation, the query and the arguments when
  neither is empty. \<^verbatim>\<open>Commit\<close> and \<^verbatim>\<open>Rollback\<close> print \<^verbatim>\<open>[goqu] COMMIT\<close> and
  \<^verbatim>\<open>[goqu] ROLLBACK\<close>. With no logger, \<^verbatim>\<open>Trace\<close> changes nothing.
\<close>

theorem Trace_message:
  "(logger d = None \<longrightarrow> Trace d op s a w = w) \<and>
   (logger d = Some l \<longrightarrow>
      messages pv (Trace d op s a w) =
        messages pv w @
        [(l, Some (if s = [] then ''[goqu] '' @ op
                   else if a = [] then ''[goqu] '' @ op @ '' [query:=`'' @ s @ ''`]''
                   else ''[goqu] '' @ op @ '' [query:=`'' @ s @ ''` args:='' @ pv a @ '']''))]) \<and>
   (logger (tx_DSL td) = Some l \<longrightarrow>
      messages pv (snd (Commit td w)) = messages pv w @ [(l, Some ''[goqu] COMMIT'')] \<and>
      messages pv (snd (Rollback td w)) = messages pv w @ [(l, Some ''[goqu] ROLLBACK'')])"
  using messages_Trace [of d l pv op s a w]
    messages_Trace [of "tx_DSL td" l pv "''COMMIT''" "[]" "[]" w]
    messages_Trace [of "tx_DSL td" l pv "''ROLLBACK''" "[]" "[]" w]
  by (simp add: Trace_no_logger Commit_def Rollback_def messages_invoke)

text \<open>
  C4 at \<^verbatim>\<open>Trace("EXEC", "SELECT 1", 7)\<close>, with no argument, with no SQL text, and
  with no logger; and at \<^verbatim>\<open>Commit\<close> and \<^verbatim>\<open>Rollback\<close> on a handle with a logger.
\<close>

theorem Trace_message_witness:
  "logger mock_dsl = Some 7 \<and>
   logger (Logger mock_dsl None) = None \<and>
   Trace (Logger mock_dsl None) ''EXEC'' ''SELECT 1'' [7] w0 = w0 \<and>
   messages show_nats (Trace mock_dsl ''EXEC'' ''SELECT 1'' [7] w0) =
     [(7, Some ''[goqu] EXEC [query:=`SELECT 1` args:=[7]]'')] \<and>
   messages show_nats (Trace mock_dsl ''EXEC'' ''SELECT 1'' [] w0) =
     [(7, Some ''[goqu] EXEC [query:=`SELECT 1`]'')] \<and>
   messages show_nats (Trace mock_dsl ''EXEC'' [] [7] w0) = [(7, Some ''[goqu] EXEC'')] \<and>
   logger (tx_DSL logged_td) = Some 7 \<and>
   messages show_nats (snd (Commit logged_td w0)) = [(7, Some ''[goqu] COMMIT'')] \<and>
   messages show_nats (snd (Rollback logged_td w0)) = [(7, Some ''[goqu] ROLLBACK'')]"
  using Trace_message [of mock_dsl "''EXEC''" "''SELECT 1''" "[7]" w0 7 show_nats logged_td]
    Trace_message [of mock_dsl "''EXEC''" "''SELECT 1''" "[]" w0 7 show_nats logged_td]
    Trace_message [of mock_dsl "''EXEC''" "[]" "[7]" w0 7 show_nats logged_td]
    Trace_message [of "Logger mock_dsl None" "''EXEC''" "''SELECT 1''" "[7]" w0 7 show_nats
      logged_td]
  by (simp add: mock_dsl_def logged_td_def Logger_def newDSL_def messages_def w0_def
      show_nats_def)

section \<open>Results of the connection\<close>

text \<open>
  C5. \<^verbatim>\<open>ExecContext\<close>, \<^verbatim>\<open>PrepareContext\<close>, \<^verbatim>\<open>QueryContext\<close>,
  \<^verbatim>\<open>QueryRowContext\<close>, \<^verbatim>\<open>Commit\<close> and \<^verbatim>\<open>Rollback\<close> return the result and the
  error that the method of the underlying connection returns, called with the same
  context, query and arguments on the connection as it is.
\<close>

theorem DSL_passes_through:
  "fst (ExecContext d ctx query args w) = fst (SQL_ExecContext (sql d) ctx query args (conn w)) \<and>
   fst (PrepareContext d ctx query w) = fst (SQL_PrepareContext (sql d) ctx query (conn w)) \<and>
   fst (QueryContext d ctx query args w) = fst (SQL_QueryContext (sql d) ctx query args (conn w)) \<and>
   fst (QueryRowContext d ctx query args w) =
     fst (SQL_QueryRowContext (sql d) ctx query args (conn w)) \<and>
   fst (Commit td w) = fst (SQLTx_Commit (Tx td) (conn w)) \<and>
   fst (Rollback td w) = fst (SQLTx_Rollback (Tx td) (conn w))"
  by (simp add: ExecContext_def PrepareContext_def QueryContext_def QueryRowContext_def
      Commit_def Rollback_def fst_invoke conn_Trace)

text \<open>
  C10. Each operation without a context is its counterpart with a context, applied
  to the background context: the same result, the same calls on the connection and
  the same trace, the world being part of what is compared.
\<close>

theorem context_free_operations:
  "Exec d query args w = ExecContext d Background query args w \<and>
   Prepare d query w = PrepareContext d Background query w \<and>
   Query d query args w = QueryContext d Background query args w \<and>
   QueryRow d query args w = QueryRowContext d Background query args w \<and>
   ScanStructs ex d i query args w = ScanStructsContext ex d Background i query args w \<and>
   ScanStruct ex d i query args w = ScanStructContext ex d Background i query args w \<and>
   ScanVals ex d i query args w = ScanValsContext ex d Background i query args w \<and>
   ScanVal ex d i query args w = ScanValContext ex d Background i query args w"
  by (simp add: Exec_def Prepare_def Query_def QueryRow_def ScanStructs_def ScanStruct_def
      ScanVals_def ScanVal_def)

text \<open>
  One caller after the other, a second \<^verbatim>\<open>queryFactory\<close> returns the factory of the
  first and leaves the handle as the first left it.
\<close>

lemma queryFactory_again: "queryFactory ex (snd (queryFactory ex d)) = queryFactory ex d"
  by (simp add: queryFactory_def Let_def)

section \<open>The completion protocol of Wrap\<close>

text \<open>
  C1. When the work function returns a non-nil error \<open>E\<close>, \<^verbatim>\<open>Wrap\<close> calls
  \<^verbatim>\<open>Rollback\<close> once and \<^verbatim>\<open>Commit\<close> never: the world it leaves is the one a
  single \<^verbatim>\<open>Rollback\<close> leaves after the work, and the connection has received one
  more call, the rollback. It returns \<open>E\<close> when the rollback returns nil, and the
  rollback's error \<open>R\<close> when it returns one.
\<close>

theorem Wrap_error_rolls_back:
  assumes "fn w = (Return (Some E), w1)"
  shows "snd (Wrap td fn w) = snd (Rollback td w1) \<and>
         calls (snd (Wrap td fn w)) = calls w1 @ [RollbackCall] \<and>
         (fst (SQLTx_Rollback (Tx td) (conn w1)) = None \<longrightarrow>
            fst (Wrap td fn w) = Return (Some E)) \<and>
         (\<forall>R. fst (SQLTx_Rollback (Tx td) (conn w1)) = Some R \<longrightarrow>
            fst (Wrap td fn w) = Return (Some R))"
proof -
  obtain re w2 where rb: "Rollback td w1 = (re, w2)"
    by (cases "Rollback td w1")
  have re: "re = fst (SQLTx_Rollback (Tx td) (conn w1))"
    using rb fst_Rollback [of td w1] by simp
  have w2: "calls w2 = calls w1 @ [RollbackCall]"
    using rb calls_Rollback [of td w1] by simp
  have "Wrap td fn w = (Return (case re of Some r \<Rightarrow> Some r | None \<Rightarrow> Some E), w2)"
    using assms rb by (simp add: Wrap_def Wrap_deferred_def recover_def leave_def)
  then show ?thesis
    using rb re w2 by (auto split: option.splits)
qed

text \<open>
  C1 at a work function that returns the error \<open>E\<close>, on a transaction whose rollback
  succeeds and on one whose rollback fails with \<open>R\<close>.
\<close>

theorem Wrap_error_rolls_back_witness:
  "returning (Some ''E'') w0 = (Return (Some ''E''), w0) \<and>
   calls (snd (Wrap (mock_td None None) (returning (Some ''E'')) w0)) = [RollbackCall] \<and>
   fst (Wrap (mock_td None None) (returning (Some ''E'')) w0) = Return (Some ''E'') \<and>
   calls (snd (Wrap (mock_td None (Some ''R'')) (returning (Some ''E'')) w0)) = [RollbackCall] \<and>
   fst (Wrap (mock_td None (Some ''R'')) (returning (Some ''E'')) w0) = Return (Some ''R'')"
proof -
  have h: "returning (Some ''E'') w0 = (Return (Some ''E''), w0)"
    by (simp add: returning_def)
  have ok: "fst (SQLTx_Rollback (Tx (mock_td None None)) (conn w0)) = None"
    by (simp add: mock_td_def mock_tx_def NewTx_def)
  have failing: "fst (SQLTx_Rollback (Tx (mock_td None (Some ''R''))) (conn w0)) = Some ''R''"
    by (simp add: mock_td_def mock_tx_def NewTx_def)
  have none: "calls w0 = []"
    by (simp add: w0_def)
  show ?thesis
    using Wrap_error_rolls_back [of "returning (Some ''E'')" w0 "''E''" w0 "mock_td None None"]
      Wrap_error_rolls_back [of "returning (Some ''E'')" w0 "''E''" w0 "mock_td None (Some ''R'')"]
      h ok failing none
    by (simp add: calls_Rollback calls_Commit)
qed

text \<open>
  A panic with a non-nil value \<open>F\<close>: \<^verbatim>\<open>Wrap\<close> rolls back once, drops what the
  rollback returns and panics with \<open>F\<close> again.
\<close>

lemma Wrap_panic_reraised:
  assumes "fn w = (Panic (Some F), w1)"
  shows "fst (Wrap td fn w) = Panic (Some F) \<and>
         snd (Wrap td fn w) = snd (Rollback td w1) \<and>
         calls (snd (Wrap td fn w)) = calls w1 @ [RollbackCall]"
  using assms calls_Rollback [of td w1]
  by (auto simp: Wrap_def Wrap_deferred_def recover_def split: prod.splits)

text \<open>
  C2. A panic whose value is nil is not seen by the test \<^verbatim>\<open>recover() != nil\<close> of the
  deferred function: at \<^verbatim>\<open>panic(nil)\<close>, \<^verbatim>\<open>Wrap\<close> calls \<^verbatim>\<open>Commit\<close>, not
  \<^verbatim>\<open>Rollback\<close>, and returns nil to its caller instead of panicking.
\<close>

theorem Wrap_panic_nil_commits:
  "Wrap (mock_td None None) (panicking None) w0 =
     (Return None, \<lparr>conn = 1, calls = [CommitCall], sink = []\<rparr>)"
  by (simp add: Wrap_def Wrap_deferred_def recover_def leave_def Commit_def invoke_def Trace_def
      panicking_def mock_td_def mock_tx_def NewTx_def newDSL_def w0_def)

text \<open>
  C3. When the work function returns nil, \<^verbatim>\<open>Wrap\<close> calls \<^verbatim>\<open>Commit\<close> once and
  \<^verbatim>\<open>Rollback\<close> never, and returns what the commit returns: nil, or the commit's
  error. Whenever the work function does not panic, \<^verbatim>\<open>Wrap\<close> makes exactly one
  call of its own on the transaction, a commit or a rollback.
\<close>

theorem Wrap_success_commits:
  assumes "fn w = (r, w1)"
  shows "(r = Return None \<longrightarrow>
            snd (Wrap td fn w) = snd (Commit td w1) \<and>
            calls (snd (Wrap td fn w)) = calls w1 @ [CommitCall] \<and>
            fst (Wrap td fn w) = Return (fst (SQLTx_Commit (Tx td) (conn w1)))) \<and>
         ((\<forall>p. r \<noteq> Panic p) \<longrightarrow>
            calls (snd (Wrap td fn w)) = calls w1 @ [CommitCall] \<or>
            calls (snd (Wrap td fn w)) = calls w1 @ [RollbackCall])"
proof -
  obtain ce w2 where c: "Commit td w1 = (ce, w2)"
    by (cases "Commit td w1")
  obtain re w3 where rb: "Rollback td w1 = (re, w3)"
    by (cases "Rollback td w1")
  have ce: "ce = fst (SQLTx_Commit (Tx td) (conn w1))"
    and w2: "calls w2 = calls w1 @ [CommitCall]"
    using c fst_Commit [of td w1] calls_Commit [of td w1] by simp_all
  have w3: "calls w3 = calls w1 @ [RollbackCall]"
    using rb calls_Rollback [of td w1] by simp
  show ?thesis
  proof (cases r)
    case (Return e)
    then show ?thesis
      using assms c rb ce w2 w3
      by (cases e; cases ce)
        (simp_all add: Wrap_def Wrap_deferred_def recover_def leave_def split: option.splits)
  next
    case (Panic p)
    then show ?thesis by simp
  next
    case Goexit
    then show ?thesis
      using assms c w2 by (simp add: Wrap_def Wrap_deferred_def recover_def leave_def)
  qed
qed

text \<open>
  C3 at a work function that returns nil, on a transaction whose commit succeeds and
  on one whose commit fails with \<open>C\<close>.
\<close>

theorem Wrap_success_commits_witness:
  "returning None w0 = (Return None, w0) \<and>
   calls (snd (Wrap (mock_td None None) (returning None) w0)) = [CommitCall] \<and>
   fst (Wrap (mock_td None None) (returning None) w0) = Return None \<and>
   calls (snd (Wrap (mock_td (Some ''C'') None) (returning None) w0)) = [CommitCall] \<and>
   fst (Wrap (mock_td (Some ''C'') None) (returning None) w0) = Return (Some ''C'')"
proof -
  have h: "returning None w0 = (Return None, w0)"
    by (simp add: returning_def)
  have ok: "fst (SQLTx_Commit (Tx (mock_td None None)) (conn w0)) = None"
    by (simp add: mock_td_def mock_tx_def NewTx_def)
  have failing: "fst (SQLTx_Commit (Tx (mock_td (Some ''C'') None)) (conn w0)) = Some ''C''"
    by (simp add: mock_td_def mock_tx_def NewTx_def)
  have none: "calls w0 = []"
    by (simp add: w0_def)
  show ?thesis
    using Wrap_success_commits [of "returning None" w0 "Return None" w0 "mock_td None None"]
      Wrap_success_commits [of "returning None" w0 "Return None" w0 "mock_td (Some ''C'') None"]
      h ok failing none
    by (simp add: calls_Rollback calls_Commit)
qed

section \<open>Beginning a transaction\<close>

text \<open>
  C6. When \<^verbatim>\<open>Begin\<close> (or \<^verbatim>\<open>BeginTx\<close>) of the underlying database returns an error,
  \<^verbatim>\<open>Database.Begin\<close> (\<^verbatim>\<open>BeginTx\<close>) returns no handle and that error, and no logger
  is called. When it returns none, the handle returned wraps the transaction it
  returned, and the handle's dialect and logger are those of the database handle.
\<close>

theorem Begin_result:
  "(\<forall>sqlTx e. fst (SQLDatabase_Begin (Db d) (conn w)) = (sqlTx, Some e) \<longrightarrow>
      fst (Begin d w) = Inl e \<and> sink (snd (Begin d w)) = sink w) \<and>
   (\<forall>sqlTx e. fst (SQLDatabase_BeginTx (Db d) ctx opts (conn w)) = (sqlTx, Some e) \<longrightarrow>
      fst (BeginTx d ctx opts w) = Inl e \<and> sink (snd (BeginTx d ctx opts w)) = sink w) \<and>
   (\<forall>sqlTx. fst (SQLDatabase_Begin (Db d) (conn w)) = (sqlTx, None) \<longrightarrow>
      (\<exists>tx. fst (Begin d w) = Inr tx \<and> Tx tx = sqlTx \<and>
         dialect (tx_DSL tx) = dialect (db_DSL d) \<and> logger (tx_DSL tx) = logger (db_DSL d))) \<and>
   (\<forall>sqlTx. fst (SQLDatabase_BeginTx (Db d) ctx opts (conn w)) = (sqlTx, None) \<longrightarrow>
      (\<exists>tx. fst (BeginTx d ctx opts w) = Inr tx \<and> Tx tx = sqlTx \<and>
         dialect (tx_DSL tx) = dialect (db_DSL d) \<and> logger (tx_DSL tx) = logger (db_DSL d)))"
  by (auto simp: Begin_def BeginTx_def invoke_def NewTx_def newDSL_def Logger_def
      split: prod.splits option.splits)

text \<open>
  C6 at a database that refuses to begin and at one that begins, each with logger 7
  and dialect \<^verbatim>\<open>mock\<close>.
\<close>

theorem Begin_result_witness:
  "fst (SQLDatabase_Begin (Db (mock_database (Some ''refused''))) (conn w0)) =
     (mock_tx None None, Some ''refused'') \<and>
   fst (Begin (mock_database (Some ''refused'')) w0) = Inl ''refused'' \<and>
   sink (snd (Begin (mock_database (Some ''refused'')) w0)) = sink w0 \<and>
   fst (BeginTx (mock_database (Some ''refused'')) Background None w0) = Inl ''refused'' \<and>
   fst (SQLDatabase_Begin (Db (mock_database None)) (conn w0)) = (mock_tx None None, None) \<and>
   (\<exists>tx. fst (Begin (mock_database None) w0) = Inr tx \<and> Tx tx = mock_tx None None \<and>
      dialect (tx_DSL tx) = ''mock'' \<and> logger (tx_DSL tx) = Some 7) \<and>
   (\<exists>tx. fst (BeginTx (mock_database None) Background None w0) = Inr tx \<and>
      Tx tx = mock_tx None None \<and>
      dialect (tx_DSL tx) = ''mock'' \<and> logger (tx_DSL tx) = Some 7)"
  using Begin_result [of "mock_database (Some ''refused'')" w0 Background None]
    Begin_result [of "mock_database None" w0 Background None]
  by (simp add: mock_database_def mock_db_def Logger_def newDSL_def w0_def)

text \<open>
  C7. When \<^verbatim>\<open>Begin\<close> fails, \<^verbatim>\<open>WithTx\<close> returns its error and the world \<^verbatim>\<open>Begin\<close>
  left, whatever the work function is. Otherwise it is \<^verbatim>\<open>Wrap\<close> on the new handle,
  of the work function applied to that handle: the work runs once, in the world that
  \<^verbatim>\<open>Begin\<close> left, and the deferred function of \<^verbatim>\<open>Wrap\<close> completes it.
\<close>

theorem WithTx_result:
  "(\<forall>e. fst (Begin d w) = Inl e \<longrightarrow> WithTx d fn w = (Return (Some e), snd (Begin d w))) \<and>
   (\<forall>tx. fst (Begin d w) = Inr tx \<longrightarrow>
      WithTx d fn w = Wrap tx (fn tx) (snd (Begin d w)) \<and>
      WithTx d fn w = (case fn tx (snd (Begin d w)) of (r, w') \<Rightarrow> Wrap_deferred tx r w'))"
  by (auto simp: WithTx_def Wrap_def split: prod.splits sum.splits)

text \<open>
  C7 at a database that refuses to begin, where the work leaves no trace, and at one
  that begins, where the statement of the work reaches the connection between
  \<^verbatim>\<open>Begin\<close> and \<^verbatim>\<open>Commit\<close>, once.
\<close>

theorem WithTx_result_witness:
  "fst (Begin (mock_database (Some ''refused'')) w0) = Inl ''refused'' \<and>
   WithTx (mock_database (Some ''refused'')) inserting w0 =
     (Return (Some ''refused''), \<lparr>conn = 1, calls = [BeginCall], sink = []\<rparr>) \<and>
   fst (Begin (mock_database None) w0) =
     Inr ((mock_td None None)\<lparr>tx_DSL := Logger (tx_DSL (mock_td None None)) (Some 7)\<rparr>) \<and>
   WithTx (mock_database None) inserting w0 =
     (Return None,
      \<lparr>conn = 3,
       calls = [BeginCall, ExecCall Background ''INSERT'' [], CommitCall],
       sink = [(7, ''[goqu] %s [query:=`%s`]'', [Str ''EXEC'', Str ''INSERT'']),
               (7, ''[goqu] %s'', [Str ''COMMIT''])]\<rparr>)"
proof -
  let ?tx = "(mock_td None None)\<lparr>tx_DSL := Logger (tx_DSL (mock_td None None)) (Some 7)\<rparr>"
  let ?w1 = "\<lparr>conn = 1, calls = [BeginCall], sink = []\<rparr> :: (nat, nat, nat) world"
  have refused: "Begin (mock_database (Some ''refused'')) w0 = (Inl ''refused'', ?w1)"
    by (simp add: Begin_def invoke_def mock_database_def mock_db_def w0_def)
  have begun: "Begin (mock_database None) w0 = (Inr ?tx, ?w1)"
    by (simp add: Begin_def invoke_def mock_database_def mock_db_def mock_td_def w0_def
        Logger_def newDSL_def NewTx_def)
  have work: "inserting ?tx ?w1 =
      (Return None,
       \<lparr>conn = 2, calls = [BeginCall, ExecCall Background ''INSERT'' []],
        sink = [(7, ''[goqu] %s [query:=`%s`]'', [Str ''EXEC'', Str ''INSERT''])]\<rparr>)"
    by (simp add: inserting_def ExecContext_def invoke_def Trace_def Printf_def
        mock_td_def mock_tx_def NewTx_def newDSL_def Logger_def SQL.truncate_def)
  have completed: "Wrap_deferred ?tx (Return None :: (string, string) outcome)
       \<lparr>conn = 2, calls = [BeginCall, ExecCall Background ''INSERT'' []],
        sink = [(7, ''[goqu] %s [query:=`%s`]'', [Str ''EXEC'', Str ''INSERT''])]\<rparr> =
      (Return None,
       \<lparr>conn = 3,
        calls = [BeginCall, ExecCall Background ''INSERT'' [], CommitCall],
        sink = [(7, ''[goqu] %s [query:=`%s`]'', [Str ''EXEC'', Str ''INSERT'']),
                (7, ''[goqu] %s'', [Str ''COMMIT''])]\<rparr>)"
    by (simp add: Wrap_deferred_def recover_def leave_def Commit_def invoke_def Trace_def
        Printf_def mock_td_def mock_tx_def NewTx_def newDSL_def Logger_def)
  show ?thesis
    using WithTx_result [of "mock_database (Some ''refused'')" w0 inserting]
      WithTx_result [of "mock_database None" w0 inserting]
      refused begun work completed
    by (simp add: Wrap_def)
qed

section \<open>The handle keeps no completion state\<close>








end
